theory Spec2Isabelle
  imports Main "HOL-Library.Word"
begin

section \<open>Strings of the host language\<close>

text \<open>
  A TypeScript string is a sequence of UTF-16 code units. The functions of the program
  that the claims are about look at single code units only (\<^verbatim>\<open>trim\<close>, the character
  classes of the two regular-expression literals), so a string is modelled as a list of
  16-bit words. \<open>lit\<close> embeds an ASCII literal of the source.
\<close>

type_synonym char16 = "16 word"
type_synonym jsstring = "char16 list"

definition lit :: "string \<Rightarrow> jsstring" where
  "lit s = map (\<lambda>c. of_nat (of_char c)) s"

text \<open>
  The code units that ECMAScript counts as white space or line terminator: the set that
  \<^verbatim>\<open>String.prototype.trim\<close> strips and that the class \<^verbatim>\<open>\s\<close> matches.
\<close>

definition isWhiteSpace :: "char16 \<Rightarrow> bool" where
  "isWhiteSpace c \<longleftrightarrow>
     c \<in> {0x9, 0xA, 0xB, 0xC, 0xD, 0x20, 0xA0, 0x1680, 0x2028, 0x2029,
          0x202F, 0x205F, 0x3000, 0xFEFF}
     \<or> (0x2000 \<le> c \<and> c \<le> 0x200A)"

definition trim :: "jsstring \<Rightarrow> jsstring" where
  "trim s = rev (dropWhile isWhiteSpace (rev (dropWhile isWhiteSpace s)))"

text \<open>
  Truthiness of a string value in a condition (\<^verbatim>\<open>if (value)\<close>, \<^verbatim>\<open>a || b\<close>,
  \<^verbatim>\<open>!value.trim()\<close>): the empty string is falsy, every other string is truthy. An
  optional property that is absent is \<^verbatim>\<open>undefined\<close>, which is falsy too.
\<close>

definition truthy :: "jsstring \<Rightarrow> bool" where
  "truthy s \<longleftrightarrow> s \<noteq> []"

definition or_else :: "jsstring option \<Rightarrow> jsstring \<Rightarrow> jsstring" where
  "or_else a b = (case a of None \<Rightarrow> b | Some s \<Rightarrow> if truthy s then s else b)"

text \<open>\<^verbatim>\<open>Array.prototype.join\<close> on an array of strings.\<close>

fun join :: "jsstring \<Rightarrow> jsstring list \<Rightarrow> jsstring" where
  "join sep [] = []"
| "join sep [x] = x"
| "join sep (x # y # ys) = x @ sep @ join sep (y # ys)"

section \<open>Regular expressions\<close>

text \<open>
  The two regular-expression literals of \<^verbatim>\<open>validateField\<close> use character classes,
  concatenation and \<^verbatim>\<open>+\<close>, between the anchors \<^verbatim>\<open>^\<close> and \<^verbatim>\<open>$\<close>. Without
  flags the anchors stand for the two ends of the input, so \<^verbatim>\<open>test\<close> decides whether
  the whole input is in the language of the expression between them. The expressions are
  kept as syntax trees and matched with Brzozowski derivatives.
\<close>

datatype rexp =
    Zero
  | One
  | Cls "char16 \<Rightarrow> bool"
  | Alt rexp rexp
  | Seq rexp rexp
  | Star rexp

fun nullable :: "rexp \<Rightarrow> bool" where
  "nullable Zero = False"
| "nullable One = True"
| "nullable (Cls p) = False"
| "nullable (Alt r s) = (nullable r \<or> nullable s)"
| "nullable (Seq r s) = (nullable r \<and> nullable s)"
| "nullable (Star r) = True"

fun deriv :: "char16 \<Rightarrow> rexp \<Rightarrow> rexp" where
  "deriv c Zero = Zero"
| "deriv c One = Zero"
| "deriv c (Cls p) = (if p c then One else Zero)"
| "deriv c (Alt r s) = Alt (deriv c r) (deriv c s)"
| "deriv c (Seq r s) =
     (if nullable r then Alt (Seq (deriv c r) s) (deriv c s) else Seq (deriv c r) s)"
| "deriv c (Star r) = Seq (deriv c r) (Star r)"

fun full_match :: "rexp \<Rightarrow> jsstring \<Rightarrow> bool" where
  "full_match r [] = nullable r"
| "full_match r (c # cs) = full_match (deriv c r) cs"

text \<open>
  The language of an expression: the reading of a regular expression against which the
  matcher is checked below.
\<close>

definition conc :: "jsstring set \<Rightarrow> jsstring set \<Rightarrow> jsstring set" where
  "conc A B = {u @ w | u w. u \<in> A \<and> w \<in> B}"

inductive_set star :: "jsstring set \<Rightarrow> jsstring set" for A :: "jsstring set" where
  star_empty: "[] \<in> star A"
| star_more: "u \<in> A \<Longrightarrow> w \<in> star A \<Longrightarrow> u @ w \<in> star A"

fun lang :: "rexp \<Rightarrow> jsstring set" where
  "lang Zero = {}"
| "lang One = {[]}"
| "lang (Cls p) = {[c] | c. p c}"
| "lang (Alt r s) = lang r \<union> lang s"
| "lang (Seq r s) = conc (lang r) (lang s)"
| "lang (Star r) = star (lang r)"

definition Plus :: "rexp \<Rightarrow> rexp" where
  "Plus r = Seq r (Star r)"

text \<open>
  \<^verbatim>\<open>const emailRegex = /^[^\s@]+@[^\s@]+\.[^\s@]+$/;\<close>
  (\<open>0x40\<close> is \<^verbatim>\<open>@\<close>, \<open>0x2E\<close> is the dot.)
\<close>

definition notSpaceAt :: "char16 \<Rightarrow> bool" where
  "notSpaceAt c \<longleftrightarrow> \<not> (isWhiteSpace c \<or> c = 0x40)"

definition emailRegex :: rexp where
  "emailRegex =
     Seq (Plus (Cls notSpaceAt))
    (Seq (Cls (\<lambda>c. c = 0x40))
    (Seq (Plus (Cls notSpaceAt))
    (Seq (Cls (\<lambda>c. c = 0x2E))
         (Plus (Cls notSpaceAt)))))"

text \<open>
  \<^verbatim>\<open>const phoneRegex = /^[\d\s\-\+\(\)]+$/;\<close>
  The class holds the digits \<^verbatim>\<open>0\<close> to \<^verbatim>\<open>9\<close>, white space, and the four characters
  hyphen (\<open>0x2D\<close>), plus (\<open>0x2B\<close>) and the two parentheses (\<open>0x28\<close>, \<open>0x29\<close>).
\<close>

definition phoneChar :: "char16 \<Rightarrow> bool" where
  "phoneChar c \<longleftrightarrow>
     (0x30 \<le> c \<and> c \<le> 0x39) \<or> isWhiteSpace c \<or> c = 0x2D \<or> c = 0x2B \<or> c = 0x28 \<or> c = 0x29"

definition phoneRegex :: rexp where
  "phoneRegex = Plus (Cls phoneChar)"

text \<open>
  \<^verbatim>\<open>new RegExp(field.validation.pattern)\<close> compiles a pattern that arrives as data (the
  schema is produced by the generation service). The regular-expression engine is part of
  the host, not of the repository, so it is a parameter of the model: a pattern either is
  rejected with a \<^verbatim>\<open>SyntaxError\<close> or yields the predicate that \<^verbatim>\<open>test\<close> computes (a
  fresh expression without flags carries no state between calls).
\<close>

datatype js_error = SyntaxError

type_synonym regexp_ctor = "jsstring \<Rightarrow> js_error + (jsstring \<Rightarrow> bool)"

text \<open>
  A stand-in for the engine, for evaluating the model on concrete inputs. It agrees with
  ECMAScript on the patterns it accepts: a non-empty pattern of ASCII letters and digits
  denotes itself, and \<^verbatim>\<open>test\<close> searches the input for an occurrence of it. It rejects
  every other pattern; among them is \<^verbatim>\<open>(\<close>, the unterminated group, which ECMAScript
  rejects as well. It is used at such patterns only.
\<close>

definition isAlnum :: "char16 \<Rightarrow> bool" where
  "isAlnum c \<longleftrightarrow>
     (0x30 \<le> c \<and> c \<le> 0x39) \<or> (0x41 \<le> c \<and> c \<le> 0x5A) \<or> (0x61 \<le> c \<and> c \<le> 0x7A)"

definition literal_rexp :: "jsstring \<Rightarrow> rexp" where
  "literal_rexp p = foldr (\<lambda>c r. Seq (Cls (\<lambda>x. x = c)) r) p One"

definition search :: "rexp \<Rightarrow> jsstring \<Rightarrow> bool" where
  "search r v = full_match (Seq (Star (Cls (\<lambda>c. True))) (Seq r (Star (Cls (\<lambda>c. True))))) v"

definition literal_RegExp :: regexp_ctor where
  "literal_RegExp p =
     (if p \<noteq> [] \<and> list_all isAlnum p then Inr (search (literal_rexp p)) else Inl SyntaxError)"

section \<open>Field definitions and the field validator\<close>

text \<open>
  \<^verbatim>\<open>interface FormField\<close> of \<^verbatim>\<open>DynamicForm\<close>; an optional property is an \<open>option\<close>.
  (\<open>field_id\<close> and \<open>field_type\<close> are the properties \<^verbatim>\<open>id\<close> and \<^verbatim>\<open>type\<close>.)
\<close>

datatype FieldType = Text | Email | Tel | Number | Select | Textarea

record Validation =
  pattern :: "jsstring option"
  message :: "jsstring option"

record FormField =
  field_id :: jsstring
  label :: jsstring
  field_type :: FieldType
  placeholder :: "jsstring option"
  required :: bool
  validation :: "Validation option"
  options :: "jsstring list option"

text \<open>
  The last two conditionals of \<^verbatim>\<open>validateField\<close>, under the comment
  \<^verbatim>\<open>// Built-in validation for common types\<close>, and its final \<^verbatim>\<open>return null\<close>.
  \<open>None\<close> is \<^verbatim>\<open>null\<close>: the value is accepted.
\<close>

definition builtin_validation :: "FormField \<Rightarrow> jsstring \<Rightarrow> jsstring option" where
  "builtin_validation field v =
     (if truthy v \<and> field_type field = Email \<and> \<not> full_match emailRegex v
        then Some (lit ''Invalid email address'')
      else if truthy v \<and> field_type field = Tel \<and> \<not> full_match phoneRegex v
        then Some (lit ''Invalid phone number'')
      else None)"

text \<open>
  \<^verbatim>\<open>
  const validateField = (field: FormField, value: string): string | null => {
    if (field.required && !value.trim()) {
      return `${field.label} is required`;
    }
    if (value && field.validation?.pattern) {
      const regex = new RegExp(field.validation.pattern);
      if (!regex.test(value)) {
        return field.validation.message || `Invalid ${field.label}`;
      }
    }
    ... built-in validation ...
    return null;
  };
  \<close>
  The three conditionals follow one another: a value that passes the custom pattern goes on
  to the built-in checks. \<open>Inl SyntaxError\<close> is the exception of the constructor.
\<close>

definition validateField :: "regexp_ctor \<Rightarrow> FormField \<Rightarrow> jsstring \<Rightarrow> js_error + jsstring option" where
  "validateField RegExp field v =
     (if required field \<and> \<not> truthy (trim v) then Inr (Some (label field @ lit '' is required''))
      else
        (case validation field of
           None \<Rightarrow> Inr (builtin_validation field v)
         | Some vd \<Rightarrow>
             (case pattern vd of
                None \<Rightarrow> Inr (builtin_validation field v)
              | Some p \<Rightarrow>
                  if truthy v \<and> truthy p then
                    (case RegExp p of
                       Inl e \<Rightarrow> Inl e
                     | Inr test \<Rightarrow>
                         if \<not> test v
                           then Inr (Some (or_else (message vd) (lit ''Invalid '' @ label field)))
                         else Inr (builtin_validation field v))
                  else Inr (builtin_validation field v))))"

section \<open>The dynamic form: state, submission, editing\<close>

text \<open>
  The generation result, \<^verbatim>\<open>interface FormSchema\<close> of \<^verbatim>\<open>FormBuilder\<close>:
  \<^verbatim>\<open>
  interface FormSchema {
    type: 'form' | 'clarification';
    title?: string;
    description?: string;
    fields?: FormField[];
    contradiction?: string;
    questions?: string[];
  }
  \<close>
  (\<open>schema_type\<close>, \<open>schema_description\<close> and \<open>schema_fields\<close> are the properties
  \<^verbatim>\<open>type\<close>, \<^verbatim>\<open>description\<close> and \<^verbatim>\<open>fields\<close>). \<^verbatim>\<open>FormBuilder\<close> hands this object to \<^verbatim>\<open>DynamicForm\<close>, whose own
  interface names its \<^verbatim>\<open>title\<close>, \<^verbatim>\<open>description\<close> and \<^verbatim>\<open>fields\<close>, all optional.
\<close>

datatype ResultType = Form | Clarification

record FormSchema =
  schema_type :: ResultType
  title :: "jsstring option"
  schema_description :: "jsstring option"
  schema_fields :: "FormField list option"
  contradiction :: "jsstring option"
  questions :: "jsstring list option"

text \<open>
  \<^verbatim>\<open>Record<string, string>\<close> is a map from keys to strings (own properties only: keys that
  name members of \<^verbatim>\<open>Object.prototype\<close> are outside the model).
\<close>

type_synonym dict = "jsstring \<rightharpoonup> jsstring"

text \<open>The row that \<^verbatim>\<open>handleSubmit\<close> inserts into \<^verbatim>\<open>form_submissions\<close>.\<close>

record Submission =
  form_title :: jsstring
  form_data :: dict
  form_id :: "jsstring option"

text \<open>The row that \<^verbatim>\<open>generateForm\<close> inserts into \<^verbatim>\<open>forms\<close>.\<close>

record FormsRow =
  row_title :: jsstring
  row_description :: jsstring
  row_schema :: FormSchema

text \<open>
  What a handler does to the world outside the component state, in the order in which it
  happens: toasts, the request to the generation service, the two inserts, and the timer
  that \<^verbatim>\<open>handleClarificationSubmit\<close> sets. The timer's callback is
  \<^verbatim>\<open>() => generateForm()\<close>; the \<^verbatim>\<open>generateForm\<close> it calls belongs to the render that
  created the callback and closes over the \<^verbatim>\<open>description\<close> of that render, which is the
  argument of \<open>Call_generateForm\<close>. (Console output is left out.)
\<close>

datatype callback = Call_generateForm jsstring

datatype effect =
    Toast_error jsstring
  | Toast_success jsstring
  | Toast_info jsstring
  | Insert_form_submissions Submission
  | Invoke_generate_form jsstring
  | Insert_forms FormsRow
  | Set_timeout callback nat

text \<open>
  The storage collaborator answers an insert into \<^verbatim>\<open>form_submissions\<close> with no error,
  with an \<^verbatim>\<open>error\<close> (which \<^verbatim>\<open>handleSubmit\<close> throws), or by rejecting the promise.
\<close>

datatype insert_result = Insert_ok | Insert_error | Insert_rejected

text \<open>The four state variables of \<^verbatim>\<open>DynamicForm\<close>.\<close>

record DynamicForm_state =
  formData :: dict
  errors :: dict
  isSubmitting :: bool
  submitted :: bool

definition initial_DynamicForm :: DynamicForm_state where
  "initial_DynamicForm =
     \<lparr>formData = Map.empty, errors = Map.empty, isSubmitting = False, submitted = False\<rparr>"

text \<open>
  Two expressions of \<^verbatim>\<open>handleSubmit\<close>: the answer handed to the validator,
  \<^verbatim>\<open>formData[field.id] || ''\<close> (an absent answer and an empty one are both the empty
  string), and the fields that \<^verbatim>\<open>schema.fields?.forEach\<close> visits (none when the property
  is absent).
\<close>

definition answer :: "dict \<Rightarrow> FormField \<Rightarrow> jsstring" where
  "answer fd field = or_else (fd (field_id field)) []"

definition fields_of :: "FormSchema \<Rightarrow> FormField list" where
  "fields_of schema = (case schema_fields schema of None \<Rightarrow> [] | Some fs \<Rightarrow> fs)"

text \<open>
  The loop of \<^verbatim>\<open>handleSubmit\<close>:
  \<^verbatim>\<open>
  schema.fields?.forEach(field => {
    const error = validateField(field, formData[field.id] || '');
    if (error) {
      newErrors[field.id] = error;
    }
  });
  \<close>
  An exception of \<^verbatim>\<open>validateField\<close> ends the loop and leaves the handler.
\<close>

fun validate_fields :: "regexp_ctor \<Rightarrow> dict \<Rightarrow> FormField list \<Rightarrow> dict \<Rightarrow> js_error + dict" where
  "validate_fields RegExp fd [] newErrors = Inr newErrors"
| "validate_fields RegExp fd (field # rest) newErrors =
     (case validateField RegExp field (answer fd field) of
        Inl e \<Rightarrow> Inl e
      | Inr error \<Rightarrow>
          validate_fields RegExp fd rest
            (case error of
               None \<Rightarrow> newErrors
             | Some msg \<Rightarrow> if truthy msg then newErrors(field_id field \<mapsto> msg) else newErrors))"

text \<open>
  \<^verbatim>\<open>handleSubmit\<close>. The handler is asynchronous; the model gives the state after it has
  run to its end and the effects it had. When validation throws, the promise of the handler
  is rejected before any state variable has been set (\<open>Inl\<close>).
  \<^verbatim>\<open>
  if (Object.keys(newErrors).length > 0) {
    setErrors(newErrors);
    toast.error("Please fix the errors in the form");
    return;
  }
  setIsSubmitting(true);
  try {
    const { error } = await supabase.from('form_submissions').insert({
        form_title: schema.title || 'Untitled Form',
        form_data: formData,
        form_id: formId || null });
    if (error) throw error;
    toast.success("Form submitted successfully!");
    setSubmitted(true); setFormData({}); setErrors({});
  } catch (error) {
    toast.error("Failed to submit form. Please try again.");
  } finally {
    setIsSubmitting(false);
  }
  \<close>
\<close>

definition handleSubmit ::
  "regexp_ctor \<Rightarrow> (Submission \<Rightarrow> insert_result) \<Rightarrow> FormSchema \<Rightarrow> jsstring option \<Rightarrow>
   DynamicForm_state \<Rightarrow> js_error + DynamicForm_state \<times> effect list" where
  "handleSubmit RegExp insertSubmission schema formId st =
     (case validate_fields RegExp (formData st) (fields_of schema) Map.empty of
        Inl e \<Rightarrow> Inl e
      | Inr newErrors \<Rightarrow>
          if dom newErrors \<noteq> {} then
            Inr (st\<lparr>errors := newErrors\<rparr>,
                 [Toast_error (lit ''Please fix the errors in the form'')])
          else
            (let submission =
                   \<lparr>form_title = or_else (title schema) (lit ''Untitled Form''),
                    form_data = formData st,
                    form_id = (case formId of
                                 None \<Rightarrow> None
                               | Some i \<Rightarrow> if truthy i then Some i else None)\<rparr>
             in case insertSubmission submission of
                  Insert_ok \<Rightarrow>
                    Inr (st\<lparr>formData := Map.empty, errors := Map.empty,
                            isSubmitting := False, submitted := True\<rparr>,
                         [Insert_form_submissions submission,
                          Toast_success (lit ''Form submitted successfully!'')])
                | Insert_error \<Rightarrow>
                    Inr (st\<lparr>isSubmitting := False\<rparr>,
                         [Insert_form_submissions submission,
                          Toast_error (lit ''Failed to submit form. Please try again.'')])
                | Insert_rejected \<Rightarrow>
                    Inr (st\<lparr>isSubmitting := False\<rparr>,
                         [Insert_form_submissions submission,
                          Toast_error (lit ''Failed to submit form. Please try again.'')])))"

text \<open>
  \<^verbatim>\<open>
  const handleChange = (fieldId: string, value: string) => {
    setFormData(prev => ({ ...prev, [fieldId]: value }));
    // Clear error when user starts typing
    if (errors[fieldId]) {
      setErrors(prev => { const newErrors = { ...prev }; delete newErrors[fieldId]; return newErrors; });
    }
  };
  \<close>
  The handler is called from a control of the current render, so the \<^verbatim>\<open>errors\<close> it reads
  are those of the state. The condition is a truthiness test: an entry that holds the
  empty string would stay.
\<close>

definition handleChange :: "jsstring \<Rightarrow> jsstring \<Rightarrow> DynamicForm_state \<Rightarrow> DynamicForm_state" where
  "handleChange fieldId v st =
     st\<lparr>formData := (formData st)(fieldId \<mapsto> v),
        errors := (if (case errors st fieldId of None \<Rightarrow> False | Some e \<Rightarrow> truthy e)
                   then (errors st)(fieldId := None) else errors st)\<rparr>"

text \<open>
  The states a mounted \<^verbatim>\<open>DynamicForm\<close> can be in: it starts empty, and every event is
  an edit of a control, a submit that returns (with the properties \<^verbatim>\<open>schema\<close> and
  \<^verbatim>\<open>formId\<close> of that moment, and whatever the storage collaborator answers), or the
  button "Submit Another" (\<^verbatim>\<open>setSubmitted(false)\<close>).
\<close>

inductive reachable :: "DynamicForm_state \<Rightarrow> bool" where
  start: "reachable initial_DynamicForm"
| edit: "reachable st \<Longrightarrow> reachable (handleChange fieldId v st)"
| submit: "reachable st \<Longrightarrow>
           handleSubmit RegExp insertSubmission schema formId st = Inr (st', effs) \<Longrightarrow>
           reachable st'"
| another: "reachable st \<Longrightarrow> reachable (st\<lparr>submitted := False\<rparr>)"

section \<open>The form builder and the clarification dialog\<close>

text \<open>The five state variables of \<^verbatim>\<open>FormBuilder\<close>.\<close>

record FormBuilder_state =
  description :: jsstring
  isGenerating :: bool
  formSchema :: "FormSchema option"
  showClarification :: bool
  formId :: "jsstring option"

definition initial_FormBuilder :: FormBuilder_state where
  "initial_FormBuilder =
     \<lparr>description = [], isGenerating = False, formSchema = None, showClarification = False,
      formId = None\<rparr>"

text \<open>
  The two collaborators of \<^verbatim>\<open>generateForm\<close>: the edge function \<^verbatim>\<open>generate-form\<close>,
  which answers a description with data, with an \<^verbatim>\<open>error\<close>, or by throwing; and the
  insert into \<^verbatim>\<open>forms\<close>, which answers with the identifier of the saved row, with an
  error, or by throwing. They are parameters of the model.
\<close>

datatype invoke_result = Invoke_data FormSchema | Invoke_error | Invoke_throws

datatype save_result = Saved jsstring | Save_error | Save_throws

text \<open>
  \<^verbatim>\<open>generateForm\<close>. Every render of \<^verbatim>\<open>FormBuilder\<close> creates this function anew, and the
  function reads the \<^verbatim>\<open>description\<close> of the render that created it: the argument
  \<open>description_c\<close>. The setters act on the live state \<open>st\<close>.
  \<^verbatim>\<open>
  const generateForm = async () => {
    if (!description.trim()) {
      toast.error("Please describe the form you want to create");
      return;
    }
    setIsGenerating(true);
    try {
      const { data, error } = await supabase.functions.invoke('generate-form', { body: { description } });
      if (error) { toast.error("Failed to generate form. Please try again."); return; }
      setFormSchema(data);
      if (data.type === 'clarification') {
        setShowClarification(true);
        toast.info("We need some clarification about your form");
      } else {
        const { data: savedForm, error: saveError } = await supabase.from('forms')
          .insert({ title: data.title || 'Untitled Form', description: data.description || '', schema: data })
          .select().single();
        if (saveError) { toast.error("Form generated but couldn't create shareable link"); }
        else { setFormId(savedForm.id); toast.success("Form generated successfully!"); }
      }
    } catch (error) {
      toast.error("An error occurred while generating the form");
    } finally {
      setIsGenerating(false);
    }
  };
  \<close>
\<close>

definition generateForm ::
  "(jsstring \<Rightarrow> invoke_result) \<Rightarrow> (FormsRow \<Rightarrow> save_result) \<Rightarrow> jsstring \<Rightarrow>
   FormBuilder_state \<Rightarrow> FormBuilder_state \<times> effect list" where
  "generateForm invoke insertForm description_c st =
     (if \<not> truthy (trim description_c) then
        (st, [Toast_error (lit ''Please describe the form you want to create'')])
      else
        (case invoke description_c of
           Invoke_throws \<Rightarrow>
             (st\<lparr>isGenerating := False\<rparr>,
              [Invoke_generate_form description_c,
               Toast_error (lit ''An error occurred while generating the form'')])
         | Invoke_error \<Rightarrow>
             (st\<lparr>isGenerating := False\<rparr>,
              [Invoke_generate_form description_c,
               Toast_error (lit ''Failed to generate form. Please try again.'')])
         | Invoke_data data \<Rightarrow>
             if schema_type data = Clarification then
               (st\<lparr>isGenerating := False, formSchema := Some data, showClarification := True\<rparr>,
                [Invoke_generate_form description_c,
                 Toast_info (lit ''We need some clarification about your form'')])
             else
               (let row = \<lparr>row_title = or_else (title data) (lit ''Untitled Form''),
                           row_description = or_else (schema_description data) [],
                           row_schema = data\<rparr>
                in case insertForm row of
                     Saved i \<Rightarrow>
                       (st\<lparr>isGenerating := False, formSchema := Some data, formId := Some i\<rparr>,
                        [Invoke_generate_form description_c, Insert_forms row,
                         Toast_success (lit ''Form generated successfully!'')])
                   | Save_error \<Rightarrow>
                       (st\<lparr>isGenerating := False, formSchema := Some data\<rparr>,
                        [Invoke_generate_form description_c, Insert_forms row,
                         Toast_error (lit ''Form generated but couldn't create shareable link'')])
                   | Save_throws \<Rightarrow>
                       (st\<lparr>isGenerating := False, formSchema := Some data\<rparr>,
                        [Invoke_generate_form description_c, Insert_forms row,
                         Toast_error (lit ''An error occurred while generating the form'')]))))"

text \<open>
  The button "Generate Form": \<^verbatim>\<open>onClick={generateForm}\<close> with
  \<^verbatim>\<open>disabled={isGenerating || !description.trim()}\<close>. A click reaches the
  \<^verbatim>\<open>generateForm\<close> of the current render.
\<close>

definition generate_disabled :: "FormBuilder_state \<Rightarrow> bool" where
  "generate_disabled st \<longleftrightarrow> isGenerating st \<or> \<not> truthy (trim (description st))"

definition click_generate ::
  "(jsstring \<Rightarrow> invoke_result) \<Rightarrow> (FormsRow \<Rightarrow> save_result) \<Rightarrow>
   FormBuilder_state \<Rightarrow> FormBuilder_state \<times> effect list" where
  "click_generate invoke insertForm st =
     (if generate_disabled st then (st, []) else generateForm invoke insertForm (description st) st)"

text \<open>
  \<^verbatim>\<open>
  const handleClarificationSubmit = (answers: string[]) => {
    const updatedDescription = `${description}\n\nClarifications:\n${answers.join('\n')}`;
    setDescription(updatedDescription);
    setShowClarification(false);
    setFormSchema(null);
    // Auto-regenerate with clarifications
    setTimeout(() => generateForm(), 100);
  };
  \<close>
  The handler belongs to a render as well: \<open>description_c\<close> is the \<^verbatim>\<open>description\<close> of
  that render, and the \<^verbatim>\<open>generateForm\<close> that the timer will call is the one of the same
  render. (\<open>0xA\<close> is the line feed.)
\<close>

definition handleClarificationSubmit ::
  "jsstring \<Rightarrow> jsstring list \<Rightarrow> FormBuilder_state \<Rightarrow> FormBuilder_state \<times> effect list" where
  "handleClarificationSubmit description_c answers st =
     (let updatedDescription =
            description_c @ [0xA, 0xA] @ lit ''Clarifications:'' @ [0xA] @ join [0xA] answers
      in (st\<lparr>description := updatedDescription, showClarification := False, formSchema := None\<rparr>,
          [Set_timeout (Call_generateForm description_c) 100]))"

text \<open>
  Running the effects of a handler: a timer fires after the handler has returned and the
  component has rendered again; its callback then runs on the state of that moment. Every
  other effect is only recorded.
\<close>

fun run_timers ::
  "(jsstring \<Rightarrow> invoke_result) \<Rightarrow> (FormsRow \<Rightarrow> save_result) \<Rightarrow> effect list \<Rightarrow>
   FormBuilder_state \<Rightarrow> FormBuilder_state \<times> effect list" where
  "run_timers invoke insertForm [] st = (st, [])"
| "run_timers invoke insertForm (Set_timeout (Call_generateForm d) ms # effs) st =
     (case generateForm invoke insertForm d st of
        (st1, effs1) \<Rightarrow>
          (case run_timers invoke insertForm effs st1 of
             (st2, effs2) \<Rightarrow> (st2, effs1 @ effs2)))"
| "run_timers invoke insertForm (e # effs) st =
     (case run_timers invoke insertForm effs st of (st2, effs2) \<Rightarrow> (st2, e # effs2))"

text \<open>
  The dialog, \<^verbatim>\<open>ClarificationDialog\<close>: its button "Continue with Clarifications" runs
  \<^verbatim>\<open>
  const handleSubmit = () => {
    if (answers.some(answer => !answer.trim())) { return; }
    onSubmit(answers);
    setAnswers(questions.map(() => ''));
  };
  \<close>
  where \<^verbatim>\<open>onSubmit\<close> is the \<^verbatim>\<open>handleClarificationSubmit\<close> of the current render of
  \<^verbatim>\<open>FormBuilder\<close>, so the description it closes over is the one of the state. The event
  below is the press of the button followed by the timer.
\<close>

definition answers_complete :: "jsstring list \<Rightarrow> bool" where
  "answers_complete answers \<longleftrightarrow> \<not> list_ex (\<lambda>answer. \<not> truthy (trim answer)) answers"

definition continue_with_clarifications ::
  "(jsstring \<Rightarrow> invoke_result) \<Rightarrow> (FormsRow \<Rightarrow> save_result) \<Rightarrow> jsstring list \<Rightarrow>
   FormBuilder_state \<Rightarrow> FormBuilder_state \<times> effect list" where
  "continue_with_clarifications invoke insertForm answers st =
     (if \<not> answers_complete answers then (st, [])
      else
        (case handleClarificationSubmit (description st) answers st of
           (st1, effs) \<Rightarrow> run_timers invoke insertForm effs st1))"

text \<open>
  What \<^verbatim>\<open>FormBuilder\<close> renders from a generation result: the preview shows the form when
  \<^verbatim>\<open>formSchema?.type === 'form'\<close> and a placeholder otherwise; the dialog is mounted when
  \<^verbatim>\<open>formSchema?.type === 'clarification'\<close>, with the properties
  \<^verbatim>\<open>open={showClarification}\<close>, \<^verbatim>\<open>contradiction={formSchema.contradiction || ""}\<close> and
  \<^verbatim>\<open>questions={formSchema.questions || []}\<close>.
\<close>

datatype preview = Preview_form FormSchema | Preview_placeholder

definition preview_panel :: "FormBuilder_state \<Rightarrow> preview" where
  "preview_panel st =
     (case formSchema st of
        None \<Rightarrow> Preview_placeholder
      | Some r \<Rightarrow> if schema_type r = Form then Preview_form r else Preview_placeholder)"

definition clarification_dialog :: "FormBuilder_state \<Rightarrow> (bool \<times> jsstring \<times> jsstring list) option" where
  "clarification_dialog st =
     (case formSchema st of
        None \<Rightarrow> None
      | Some r \<Rightarrow>
          if schema_type r = Clarification
          then Some (showClarification st, or_else (contradiction r) [],
                     (case questions r of None \<Rightarrow> [] | Some qs \<Rightarrow> qs))
          else None)"

section \<open>Observations and scenarios\<close>

text \<open>
  The requests to the generation service and the rows handed to the storage collaborator
  among the effects of a handler.
\<close>

fun requests :: "effect list \<Rightarrow> jsstring list" where
  "requests [] = []"
| "requests (Invoke_generate_form d # effs) = d # requests effs"
| "requests (e # effs) = requests effs"

fun insertions :: "effect list \<Rightarrow> Submission list" where
  "insertions [] = []"
| "insertions (Insert_form_submissions s # effs) = s # insertions effs"
| "insertions (e # effs) = insertions effs"

text \<open>Fields and schemas on which the model is evaluated below.\<close>

definition contactField :: "FieldType \<Rightarrow> bool \<Rightarrow> jsstring option \<Rightarrow> FormField" where
  "contactField ty req msg =
     \<lparr>field_id = lit ''contact'', label = lit ''Contact'', field_type = ty,
      placeholder = None, required = req,
      validation = Some \<lparr>pattern = Some (lit ''a''), message = msg\<rparr>, options = None\<rparr>"

definition nameField :: FormField where
  "nameField =
     \<lparr>field_id = lit ''name'', label = lit ''Name'', field_type = Text,
      placeholder = None, required = True, validation = None, options = None\<rparr>"

definition codeField :: FormField where
  "codeField =
     \<lparr>field_id = lit ''code'', label = lit ''Code'', field_type = Text,
      placeholder = None, required = False,
      validation = Some \<lparr>pattern = Some [0x28], message = None\<rparr>, options = None\<rparr>"

definition emailField :: "jsstring \<Rightarrow> FormField" where
  "emailField lbl =
     \<lparr>field_id = lit ''email'', label = lbl, field_type = Email,
      placeholder = None, required = True, validation = None, options = None\<rparr>"

definition formSchemaOf :: "FormField list \<Rightarrow> FormSchema" where
  "formSchemaOf fs =
     \<lparr>schema_type = Form, title = Some (lit ''Scenario''), schema_description = None,
      schema_fields = Some fs, contradiction = None, questions = None\<rparr>"

definition feedbackField :: FormField where
  "feedbackField =
     \<lparr>field_id = lit ''feedback'', label = lit ''Feedback'', field_type = Textarea,
      placeholder = None, required = True, validation = None, options = None\<rparr>"

text \<open>
  A session of \<^verbatim>\<open>DynamicForm\<close> on the schema with the fields \<^verbatim>\<open>name\<close> and
  \<^verbatim>\<open>email\<close>, after the user has typed \<^verbatim>\<open>not-an-email\<close> and pressed submit.
\<close>

definition twoErrors :: DynamicForm_state where
  "twoErrors =
     \<lparr>formData = [lit ''email'' \<mapsto> lit ''not-an-email''],
      errors = [lit ''name'' \<mapsto> lit ''Name is required'',
                lit ''email'' \<mapsto> lit ''Invalid email address''],
      isSubmitting = False, submitted = False\<rparr>"

text \<open>
  The clarification scenario: the generation service answers the description
  "anonymous feedback form with required phone number" with a clarification request, and
  every other description with a form; the storage collaborator saves every form. The
  state \<open>awaiting_answers\<close> is the one after the user has typed that description and
  pressed "Generate Form".
\<close>

definition scenario_description :: jsstring where
  "scenario_description = lit ''anonymous feedback form with required phone number''"

definition scenario_clarification :: FormSchema where
  "scenario_clarification =
     \<lparr>schema_type = Clarification, title = None, schema_description = None, schema_fields = None,
      contradiction = Some (lit ''An anonymous form cannot require a phone number''),
      questions = Some [lit ''Should the form be anonymous or collect phone numbers?'']\<rparr>"

definition scenario_gateway :: "jsstring \<Rightarrow> invoke_result" where
  "scenario_gateway d =
     (if d = scenario_description then Invoke_data scenario_clarification
      else Invoke_data (formSchemaOf [feedbackField]))"

definition scenario_storage :: "FormsRow \<Rightarrow> save_result" where
  "scenario_storage row = Saved (lit ''form-1'')"

definition awaiting_answers :: FormBuilder_state where
  "awaiting_answers =
     fst (click_generate scenario_gateway scenario_storage
            (initial_FormBuilder\<lparr>description := scenario_description\<rparr>))"

text \<open>A generation result tagged \<^verbatim>\<open>form\<close> that carries the properties of both variants.\<close>

definition mixed_result :: FormSchema where
  "mixed_result =
     \<lparr>schema_type = Form, title = Some (lit ''Feedback''), schema_description = None,
      schema_fields = Some [feedbackField],
      contradiction = Some (lit ''An anonymous form cannot require a phone number''),
      questions = Some [lit ''Should the form be anonymous or collect phone numbers?'']\<rparr>"

section \<open>Properties of the matcher\<close>

text \<open>
  The matcher accepts exactly the language of the expression. For the two literals of
  \<^verbatim>\<open>validateField\<close> this gives their meaning in plain terms: the telephone expression
  accepts the non-empty strings of telephone characters, and the email expression the
  strings \<open>a @ b . c\<close> whose three parts are non-empty and free of white space and of
  \<^verbatim>\<open>@\<close>. The search of the stand-in engine is the search for an occurrence.
\<close>

lemma nullable_lang: "nullable r \<longleftrightarrow> [] \<in> lang r"
  by (induction r) (auto simp: conc_def intro: star.star_empty)

lemma cons_in_conc:
  "c # w \<in> conc A B \<longleftrightarrow>
     (\<exists>u v. w = u @ v \<and> c # u \<in> A \<and> v \<in> B) \<or> ([] \<in> A \<and> c # w \<in> B)"
proof
  assume "c # w \<in> conc A B"
  then obtain x y where xy: "c # w = x @ y" "x \<in> A" "y \<in> B"
    by (auto simp: conc_def)
  show "(\<exists>u v. w = u @ v \<and> c # u \<in> A \<and> v \<in> B) \<or> ([] \<in> A \<and> c # w \<in> B)"
  proof (cases x)
    case Nil
    with xy show ?thesis by simp
  next
    case (Cons x1 xs)
    with xy have "w = xs @ y" "c # xs \<in> A" by simp_all
    with xy(3) show ?thesis by blast
  qed
next
  assume "(\<exists>u v. w = u @ v \<and> c # u \<in> A \<and> v \<in> B) \<or> ([] \<in> A \<and> c # w \<in> B)"
  then show "c # w \<in> conc A B"
  proof
    assume "\<exists>u v. w = u @ v \<and> c # u \<in> A \<and> v \<in> B"
    then obtain u v where "w = u @ v" "c # u \<in> A" "v \<in> B" by blast
    then have "c # w = (c # u) @ v" by simp
    with \<open>c # u \<in> A\<close> \<open>v \<in> B\<close> show ?thesis unfolding conc_def by blast
  next
    assume "[] \<in> A \<and> c # w \<in> B"
    then have "c # w = [] @ (c # w)" "[] \<in> A" "c # w \<in> B" by simp_all
    then show ?thesis unfolding conc_def by blast
  qed
qed

lemma star_cons_split:
  "x \<in> star A \<Longrightarrow> x = c # w \<Longrightarrow> \<exists>u v. w = u @ v \<and> c # u \<in> A \<and> v \<in> star A"
proof (induction arbitrary: w rule: star.induct)
  case star_empty
  then show ?case by simp
next
  case (star_more u t)
  show ?case
  proof (cases u)
    case Nil
    with star_more.prems have "t = c # w" by simp
    then show ?thesis by (rule star_more.IH)
  next
    case (Cons u1 us)
    with star_more.prems have "w = us @ t" "c # us = u" by simp_all
    with star_more.hyps show ?thesis by blast
  qed
qed

lemma cons_in_star:
  "c # w \<in> star A \<longleftrightarrow> (\<exists>u v. w = u @ v \<and> c # u \<in> A \<and> v \<in> star A)"
proof
  assume "c # w \<in> star A"
  then show "\<exists>u v. w = u @ v \<and> c # u \<in> A \<and> v \<in> star A"
    by (rule star_cons_split) simp
next
  assume "\<exists>u v. w = u @ v \<and> c # u \<in> A \<and> v \<in> star A"
  then obtain u v where "w = u @ v" "c # u \<in> A" "v \<in> star A" by blast
  then show "c # w \<in> star A"
    using star.star_more [of "c # u" A v] by simp
qed

lemma deriv_lang: "w \<in> lang (deriv c r) \<longleftrightarrow> c # w \<in> lang r"
proof (induction r arbitrary: w)
  case (Seq r s)
  then show ?case
    by (auto simp: cons_in_conc nullable_lang) (auto simp: conc_def)
next
  case (Star r)
  then show ?case
    by (auto simp: cons_in_star) (auto simp: conc_def)
qed auto

lemma full_match_lang: "full_match r w \<longleftrightarrow> w \<in> lang r"
  by (induction w arbitrary: r) (simp_all add: nullable_lang deriv_lang)

lemma star_cls: "w \<in> star {[c] | c. p c} \<longleftrightarrow> list_all p w"
proof
  assume "w \<in> star {[c] | c. p c}"
  then show "list_all p w"
    by (induction rule: star.induct) auto
next
  assume "list_all p w"
  then show "w \<in> star {[c] | c. p c}"
  proof (induction w)
    case Nil
    show ?case by (rule star.star_empty)
  next
    case (Cons a w)
    then have "[a] \<in> {[c] | c. p c}" "w \<in> star {[c] | c. p c}" by simp_all
    then have "[a] @ w \<in> star {[c] | c. p c}" by (rule star.star_more)
    then show ?case by simp
  qed
qed

lemma lang_Plus_Cls: "w \<in> lang (Plus (Cls p)) \<longleftrightarrow> w \<noteq> [] \<and> list_all p w"
proof -
  have "w \<in> lang (Plus (Cls p)) \<longleftrightarrow> (\<exists>c t. w = c # t \<and> p c \<and> list_all p t)"
  proof
    assume "w \<in> lang (Plus (Cls p))"
    then show "\<exists>c t. w = c # t \<and> p c \<and> list_all p t"
      by (auto simp: Plus_def conc_def star_cls)
  next
    assume "\<exists>c t. w = c # t \<and> p c \<and> list_all p t"
    then obtain c t where "w = [c] @ t" "p c" "list_all p t" by auto
    then show "w \<in> lang (Plus (Cls p))"
      unfolding Plus_def lang.simps conc_def star_cls by blast
  qed
  also have "\<dots> \<longleftrightarrow> w \<noteq> [] \<and> list_all p w"
    by (cases w) auto
  finally show ?thesis .
qed

lemma phoneRegex_shape: "full_match phoneRegex v \<longleftrightarrow> v \<noteq> [] \<and> list_all phoneChar v"
  by (simp add: full_match_lang phoneRegex_def lang_Plus_Cls)

lemma emailRegex_shape:
  "full_match emailRegex v \<longleftrightarrow>
     (\<exists>a b c. v = a @ [0x40] @ b @ [0x2E] @ c
        \<and> a \<noteq> [] \<and> list_all notSpaceAt a
        \<and> b \<noteq> [] \<and> list_all notSpaceAt b
        \<and> c \<noteq> [] \<and> list_all notSpaceAt c)"
proof -
  have "full_match emailRegex v \<longleftrightarrow>
      v \<in> conc (lang (Plus (Cls notSpaceAt))) (conc {[0x40]}
            (conc (lang (Plus (Cls notSpaceAt))) (conc {[0x2E]} (lang (Plus (Cls notSpaceAt))))))"
    by (simp add: full_match_lang emailRegex_def)
  also have "\<dots> \<longleftrightarrow> (\<exists>a b c. v = a @ [0x40] @ b @ [0x2E] @ c
        \<and> a \<in> lang (Plus (Cls notSpaceAt))
        \<and> b \<in> lang (Plus (Cls notSpaceAt))
        \<and> c \<in> lang (Plus (Cls notSpaceAt)))"
    unfolding conc_def by blast
  finally show ?thesis by (simp add: lang_Plus_Cls)
qed

lemma lang_literal_rexp: "lang (literal_rexp p) = {p}"
proof (induction p)
  case Nil
  show ?case by (simp add: literal_rexp_def)
next
  case (Cons c p)
  have "literal_rexp (c # p) = Seq (Cls (\<lambda>x. x = c)) (literal_rexp p)"
    by (simp add: literal_rexp_def)
  with Cons show ?case by (auto simp: conc_def)
qed

lemma lang_any: "w \<in> lang (Star (Cls (\<lambda>c. True)))"
proof -
  have "list_all (\<lambda>c. True) w" by (simp add: list_all_iff)
  then have "w \<in> star {[c] | c. (\<lambda>c. True) c}" by (simp only: star_cls)
  then show ?thesis by simp
qed

lemma search_literal_rexp: "search (literal_rexp p) v \<longleftrightarrow> (\<exists>a c. v = a @ p @ c)"
proof -
  have "search (literal_rexp p) v \<longleftrightarrow>
          v \<in> conc (lang (Star (Cls (\<lambda>c. True)))) (conc {p} (lang (Star (Cls (\<lambda>c. True)))))"
    unfolding search_def full_match_lang by (simp add: lang_literal_rexp)
  also have "\<dots> \<longleftrightarrow> (\<exists>a c. v = a @ p @ c)"
    unfolding conc_def using lang_any by blast
  finally show ?thesis .
qed

section \<open>Properties of the field validator\<close>

lemma trim_empty_iff: "trim s = [] \<longleftrightarrow> list_all isWhiteSpace s"
proof
  assume "trim s = []"
  then have "dropWhile isWhiteSpace (rev (dropWhile isWhiteSpace s)) = []"
    by (simp add: trim_def)
  then have all: "\<forall>x \<in> set (dropWhile isWhiteSpace s). isWhiteSpace x"
    by simp
  have "dropWhile isWhiteSpace s = []"
  proof (rule ccontr)
    assume ne: "dropWhile isWhiteSpace s \<noteq> []"
    then have "\<not> isWhiteSpace (hd (dropWhile isWhiteSpace s))"
      by (rule hd_dropWhile)
    moreover from ne have "hd (dropWhile isWhiteSpace s) \<in> set (dropWhile isWhiteSpace s)"
      by simp
    ultimately show False using all by blast
  qed
  then show "list_all isWhiteSpace s"
    by (simp add: list_all_iff)
next
  assume "list_all isWhiteSpace s"
  then show "trim s = []"
    by (auto simp: trim_def list_all_iff dest: set_dropWhileD)
qed

text \<open>
  Claim C7. For every field with \<open>required = true\<close>, validating an empty or
  white-space-only raw value yields the error "<label> is required". The check comes
  first: the result does not depend on the field's type, on its validation rule, or on
  the regular-expression engine, which is not consulted (not even when it would throw).
\<close>

theorem required_check_first:
  assumes "required field" and "list_all isWhiteSpace v"
  shows "validateField RegExp field v = Inr (Some (label field @ lit '' is required''))"
  using assms by (simp add: validateField_def truthy_def trim_empty_iff)

theorem required_check_first_witness:
  "required \<lparr>field_id = lit ''name'', label = lit ''Name'', field_type = Email,
       placeholder = None, required = True,
       validation = Some \<lparr>pattern = Some [0x28], message = None\<rparr>, options = None\<rparr>
   \<and> list_all isWhiteSpace [0x20, 0x9]
   \<and> literal_RegExp [0x28] = Inl SyntaxError
   \<and> validateField literal_RegExp
       \<lparr>field_id = lit ''name'', label = lit ''Name'', field_type = Email,
        placeholder = None, required = True,
        validation = Some \<lparr>pattern = Some [0x28], message = None\<rparr>, options = None\<rparr>
       [0x20, 0x9]
     = Inr (Some (lit ''Name is required''))"
  using required_check_first [of
      "\<lparr>field_id = lit ''name'', label = lit ''Name'', field_type = Email,
        placeholder = None, required = True,
        validation = Some \<lparr>pattern = Some [0x28], message = None\<rparr>, options = None\<rparr>"
      "[0x20, 0x9]" literal_RegExp]
  by (simp add: isWhiteSpace_def literal_RegExp_def isAlnum_def lit_def)

lemmas string_evals = lit_def isWhiteSpace_def truthy_def trim_def or_else_def

lemmas regexp_evals = emailRegex_def phoneRegex_def Plus_def notSpaceAt_def phoneChar_def
  literal_RegExp_def isAlnum_def literal_rexp_def search_def

text \<open>
  Claim C1, as stated, fails: a custom pattern does not supersede the built-in checks.
  With the pattern \<^verbatim>\<open>a\<close> on an email field the value \<^verbatim>\<open>a\<close> matches the pattern and
  is rejected by the built-in email check. A required field rejects the non-empty value
  of one space as missing, before its pattern is considered. A message that is present
  but empty gives way to the default message.
\<close>

theorem custom_pattern_does_not_supersede:
  "(case literal_RegExp (lit ''a'') of Inl e \<Rightarrow> False | Inr test \<Rightarrow> test (lit ''a''))
   \<and> validateField literal_RegExp (contactField Email False None) (lit ''a'')
       = Inr (Some (lit ''Invalid email address''))
   \<and> (case literal_RegExp (lit ''a'') of Inl e \<Rightarrow> False | Inr test \<Rightarrow> \<not> test (lit '' ''))
   \<and> validateField literal_RegExp (contactField Text True (Some (lit ''Must contain a''))) (lit '' '')
       = Inr (Some (lit ''Contact is required''))
   \<and> validateField literal_RegExp (contactField Text False (Some [])) (lit ''b'')
       = Inr (Some (lit ''Invalid Contact''))"
  by (simp add: validateField_def builtin_validation_def contactField_def string_evals regexp_evals)

text \<open>
  Claim C1, amended. Take a field with a non-empty custom pattern that compiles, and a
  non-empty raw value that passes the required check (the field is not required, or the
  value is not white space only). If the value does not match the pattern, it is rejected
  with \<^verbatim>\<open>field.validation.message\<close> when that is present and not empty, else with
  "Invalid <label>". If the value matches, the built-in check of the field's type is
  applied next: an email field rejects it with "Invalid email address" and a telephone
  field with "Invalid phone number" when the built-in expression does not match; in every
  other case the value is accepted.
\<close>

theorem custom_pattern_then_builtin_checks:
  assumes "validation field = Some vd" and "pattern vd = Some p" and "truthy p"
      and "RegExp p = Inr test" and "truthy v"
      and "\<not> (required field \<and> list_all isWhiteSpace v)"
  shows "(\<not> test v \<longrightarrow>
            validateField RegExp field v =
              Inr (Some (case message vd of
                           None \<Rightarrow> lit ''Invalid '' @ label field
                         | Some m \<Rightarrow> if m = [] then lit ''Invalid '' @ label field else m)))
       \<and> (test v \<longrightarrow>
            validateField RegExp field v =
              (if field_type field = Email \<and> \<not> full_match emailRegex v
                 then Inr (Some (lit ''Invalid email address''))
               else if field_type field = Tel \<and> \<not> full_match phoneRegex v
                 then Inr (Some (lit ''Invalid phone number''))
               else Inr None))"
  using assms
  by (auto simp: validateField_def builtin_validation_def truthy_def or_else_def trim_empty_iff
      split: option.splits)

theorem custom_pattern_then_builtin_checks_witness:
  "validation (contactField Email True None) = Some \<lparr>pattern = Some (lit ''a''), message = None\<rparr>
   \<and> truthy (lit ''a'')
   \<and> literal_RegExp (lit ''a'') = Inr (search (literal_rexp (lit ''a'')))
   \<and> truthy (lit ''a@b.com'')
   \<and> \<not> (required (contactField Email True None) \<and> list_all isWhiteSpace (lit ''a@b.com''))
   \<and> search (literal_rexp (lit ''a'')) (lit ''a@b.com'')
   \<and> validateField literal_RegExp (contactField Email True None) (lit ''a@b.com'') = Inr None"
  using custom_pattern_then_builtin_checks [of "contactField Email True None"
      "\<lparr>pattern = Some (lit ''a''), message = None\<rparr>" "lit ''a''" literal_RegExp
      "search (literal_rexp (lit ''a''))" "lit ''a@b.com''"]
  by (simp add: contactField_def string_evals regexp_evals)

section \<open>Properties of the submission pipeline\<close>

lemma validateField_message_truthy: "validateField RegExp field v \<noteq> Inr (Some [])"
  by (auto simp: validateField_def builtin_validation_def truthy_def or_else_def lit_def
      split: option.splits sum.splits if_splits)

lemma validate_fields_returns_iff:
  "(\<exists>newErrors. validate_fields RegExp fd fs acc = Inr newErrors) \<longleftrightarrow>
   (\<forall>f \<in> set fs. \<exists>r. validateField RegExp f (answer fd f) = Inr r)"
proof (induction fs arbitrary: acc)
  case Nil
  then show ?case by simp
next
  case (Cons f fs)
  show ?case
  proof (cases "validateField RegExp f (answer fd f)")
    case (Inl e)
    then show ?thesis by auto
  next
    case (Inr r)
    then show ?thesis using Cons.IH by auto
  qed
qed

lemma validate_fields_dom:
  "validate_fields RegExp fd fs acc = Inr newErrors \<Longrightarrow>
   dom newErrors = dom acc \<union>
     field_id ` {f \<in> set fs. \<exists>msg. validateField RegExp f (answer fd f) = Inr (Some msg)}"
proof (induction fs arbitrary: acc)
  case Nil
  then show ?case by simp
next
  case (Cons f fs)
  let ?S = "\<lambda>fs. field_id ` {f \<in> set fs. \<exists>msg. validateField RegExp f (answer fd f) = Inr (Some msg)}"
  show ?case
  proof (cases "validateField RegExp f (answer fd f)")
    case (Inl e)
    with Cons.prems show ?thesis by simp
  next
    case (Inr r)
    show ?thesis
    proof (cases r)
      case None
      with Inr Cons.prems have "validate_fields RegExp fd fs acc = Inr newErrors" by simp
      then have "dom newErrors = dom acc \<union> ?S fs" by (rule Cons.IH)
      moreover have "?S (f # fs) = ?S fs" using Inr None by auto
      ultimately show ?thesis by simp
    next
      case (Some msg)
      with Inr have "msg \<noteq> []" using validateField_message_truthy [of RegExp f] by auto
      with Inr Some Cons.prems
      have "validate_fields RegExp fd fs (acc(field_id f \<mapsto> msg)) = Inr newErrors"
        by (simp add: truthy_def)
      then have "dom newErrors = dom (acc(field_id f \<mapsto> msg)) \<union> ?S fs" by (rule Cons.IH)
      then have "dom newErrors = insert (field_id f) (dom acc \<union> ?S fs)" by simp
      moreover have "?S (f # fs) = insert (field_id f) (?S fs)" using Inr Some by auto
      ultimately show ?thesis by simp
    qed
  qed
qed

lemma validate_fields_entry:
  "validate_fields RegExp fd fs acc = Inr newErrors \<Longrightarrow>
   newErrors k = Some m \<Longrightarrow>
   acc k = Some m \<or>
   (\<exists>f \<in> set fs. field_id f = k \<and> validateField RegExp f (answer fd f) = Inr (Some m))"
proof (induction fs arbitrary: acc)
  case Nil
  then show ?case by simp
next
  case (Cons f fs)
  show ?case
  proof (cases "validateField RegExp f (answer fd f)")
    case (Inl e)
    with Cons.prems show ?thesis by simp
  next
    case (Inr r)
    show ?thesis
    proof (cases r)
      case None
      with Inr Cons.prems have "validate_fields RegExp fd fs acc = Inr newErrors" by simp
      from Cons.IH [OF this Cons.prems(2)] show ?thesis by auto
    next
      case (Some msg)
      with Inr have "msg \<noteq> []" using validateField_message_truthy [of RegExp f] by auto
      with Inr Some Cons.prems
      have "validate_fields RegExp fd fs (acc(field_id f \<mapsto> msg)) = Inr newErrors"
        by (simp add: truthy_def)
      from Cons.IH [OF this Cons.prems(2)] Inr Some show ?thesis
        by (auto split: if_splits)
    qed
  qed
qed

lemma validate_fields_pass:
  "\<forall>f \<in> set fs. validateField RegExp f (answer fd f) = Inr None \<Longrightarrow>
   validate_fields RegExp fd fs acc = Inr acc"
  by (induction fs arbitrary: acc) auto

text \<open>
  When no call of the validator throws, \<^verbatim>\<open>handleSubmit\<close> collects every failure: every
  field is validated, and if some field fails the new Error Map has an entry for exactly
  the identifiers of the failing fields, each entry the message of a failing field with
  that identifier; the only effect is the toast, so nothing is handed to storage.
\<close>

lemma handleSubmit_collects_all_errors:
  assumes nothrow: "\<forall>f \<in> set (fields_of schema). \<exists>r. validateField RegExp f (answer (formData st) f) = Inr r"
      and fails: "\<exists>f \<in> set (fields_of schema). \<exists>msg. validateField RegExp f (answer (formData st) f) = Inr (Some msg)"
  shows "\<exists>newErrors.
           handleSubmit RegExp insertSubmission schema fid st
             = Inr (st\<lparr>errors := newErrors\<rparr>, [Toast_error (lit ''Please fix the errors in the form'')])
         \<and> dom newErrors =
             field_id ` {f \<in> set (fields_of schema). \<exists>msg. validateField RegExp f (answer (formData st) f) = Inr (Some msg)}
         \<and> (\<forall>k m. newErrors k = Some m \<longrightarrow>
               (\<exists>f \<in> set (fields_of schema). field_id f = k \<and>
                   validateField RegExp f (answer (formData st) f) = Inr (Some m)))"
proof -
  from nothrow obtain newErrors
    where ne: "validate_fields RegExp (formData st) (fields_of schema) Map.empty = Inr newErrors"
    using validate_fields_returns_iff [of RegExp "formData st" "fields_of schema" Map.empty] by blast
  from validate_fields_dom [OF ne]
  have d: "dom newErrors =
      field_id ` {f \<in> set (fields_of schema). \<exists>msg. validateField RegExp f (answer (formData st) f) = Inr (Some msg)}"
    by simp
  with fails have "dom newErrors \<noteq> {}" by blast
  with ne have "handleSubmit RegExp insertSubmission schema fid st
             = Inr (st\<lparr>errors := newErrors\<rparr>, [Toast_error (lit ''Please fix the errors in the form'')])"
    by (simp add: handleSubmit_def)
  moreover have "\<forall>k m. newErrors k = Some m \<longrightarrow>
               (\<exists>f \<in> set (fields_of schema). field_id f = k \<and>
                   validateField RegExp f (answer (formData st) f) = Inr (Some m))"
    using validate_fields_entry [OF ne] by auto
  ultimately show ?thesis using d by blast
qed

text \<open>
  Claim C4 on a schema one of whose patterns does not compile. The schema has the
  required field \<^verbatim>\<open>name\<close> and the field \<^verbatim>\<open>code\<close> with the pattern \<^verbatim>\<open>(\<close>; the user has
  typed \<^verbatim>\<open>x\<close> into \<^verbatim>\<open>code\<close> and left \<^verbatim>\<open>name\<close> empty. The validator rejects
  \<^verbatim>\<open>name\<close> ("Name is required"), then throws on \<^verbatim>\<open>code\<close>: the handler ends with the
  exception, and no Error Map is set, so the failing field \<^verbatim>\<open>name\<close> gets no entry.
\<close>

theorem invalid_pattern_aborts_submit:
  "validateField literal_RegExp nameField
       (answer (formData (handleChange (lit ''code'') (lit ''x'') initial_DynamicForm)) nameField)
     = Inr (Some (lit ''Name is required''))
   \<and> validateField literal_RegExp codeField
       (answer (formData (handleChange (lit ''code'') (lit ''x'') initial_DynamicForm)) codeField)
     = Inl SyntaxError
   \<and> handleSubmit literal_RegExp (\<lambda>s. Insert_ok) (formSchemaOf [nameField, codeField]) None
        (handleChange (lit ''code'') (lit ''x'') initial_DynamicForm) = Inl SyntaxError"
  by (simp add: validateField_def handleSubmit_def handleChange_def initial_DynamicForm_def
      nameField_def codeField_def formSchemaOf_def builtin_validation_def answer_def fields_of_def
      string_evals regexp_evals)

text \<open>
  Claim C5. If validation passes (the validator accepts the answer of every field) and
  the insert of the storage collaborator fails, by an error or by a rejected promise,
  then \<^verbatim>\<open>handleSubmit\<close> hands over the submission, shows the toast "Failed to submit
  form. Please try again.", and changes nothing but \<^verbatim>\<open>isSubmitting\<close>: the Answer Map,
  the Error Map and \<^verbatim>\<open>submitted\<close> are as before. The outcome is not that of a validation
  failure (a new Error Map and the toast "Please fix the errors in the form").
\<close>

theorem persist_failure_keeps_answers:
  assumes "\<forall>f \<in> set (fields_of schema). validateField RegExp f (answer (formData st) f) = Inr None"
      and "insertSubmission
             \<lparr>form_title = or_else (title schema) (lit ''Untitled Form''), form_data = formData st,
              form_id = (case fid of None \<Rightarrow> None | Some i \<Rightarrow> if truthy i then Some i else None)\<rparr>
           \<noteq> Insert_ok"
  shows "handleSubmit RegExp insertSubmission schema fid st
           = Inr (st\<lparr>isSubmitting := False\<rparr>,
                  [Insert_form_submissions
                     \<lparr>form_title = or_else (title schema) (lit ''Untitled Form''), form_data = formData st,
                      form_id = (case fid of None \<Rightarrow> None | Some i \<Rightarrow> if truthy i then Some i else None)\<rparr>,
                   Toast_error (lit ''Failed to submit form. Please try again.'')])
         \<and> formData (st\<lparr>isSubmitting := False\<rparr>) = formData st
         \<and> errors (st\<lparr>isSubmitting := False\<rparr>) = errors st
         \<and> submitted (st\<lparr>isSubmitting := False\<rparr>) = submitted st
         \<and> (\<forall>newErrors. handleSubmit RegExp insertSubmission schema fid st
               \<noteq> Inr (st\<lparr>errors := newErrors\<rparr>, [Toast_error (lit ''Please fix the errors in the form'')]))"
proof -
  from assms(1) have "validate_fields RegExp (formData st) (fields_of schema) Map.empty = Inr Map.empty"
    by (rule validate_fields_pass)
  with assms(2) show ?thesis
    by (cases "insertSubmission
             \<lparr>form_title = or_else (title schema) (lit ''Untitled Form''), form_data = formData st,
              form_id = (case fid of None \<Rightarrow> None | Some i \<Rightarrow> if truthy i then Some i else None)\<rparr>")
       (simp_all add: handleSubmit_def Let_def)
qed

theorem persist_failure_keeps_answers_witness:
  "fields_of (formSchemaOf [emailField (lit ''Email'')]) = [emailField (lit ''Email'')]
   \<and> validateField literal_RegExp (emailField (lit ''Email''))
        (answer (formData (handleChange (lit ''email'') (lit ''a@b.com'') initial_DynamicForm))
           (emailField (lit ''Email''))) = Inr None
   \<and> formData (handleChange (lit ''email'') (lit ''a@b.com'') initial_DynamicForm) (lit ''email'')
       = Some (lit ''a@b.com'')
   \<and> handleSubmit literal_RegExp (\<lambda>s. Insert_error) (formSchemaOf [emailField (lit ''Email'')]) None
        (handleChange (lit ''email'') (lit ''a@b.com'') initial_DynamicForm)
       = Inr (handleChange (lit ''email'') (lit ''a@b.com'') initial_DynamicForm,
              [Insert_form_submissions
                 \<lparr>form_title = lit ''Scenario'',
                  form_data = [lit ''email'' \<mapsto> lit ''a@b.com''], form_id = None\<rparr>,
               Toast_error (lit ''Failed to submit form. Please try again.'')])"
  using persist_failure_keeps_answers [of "formSchemaOf [emailField (lit ''Email'')]" literal_RegExp
      "handleChange (lit ''email'') (lit ''a@b.com'') initial_DynamicForm" "\<lambda>s. Insert_error" None]
  by (simp add: validateField_def handleChange_def initial_DynamicForm_def
      emailField_def formSchemaOf_def builtin_validation_def answer_def fields_of_def
      string_evals regexp_evals)

text \<open>
  Claim C8. On the schema whose single field is \<^verbatim>\<open>{id: "email", type: "email",
  required: true}\<close> without a validation rule (whatever its label, whatever the engine,
  the storage collaborator and the state before): after the answer \<^verbatim>\<open>not-an-email\<close>,
  submit sets the Error Map to exactly \<^verbatim>\<open>{"email": "Invalid email address"}\<close>; the
  answer \<^verbatim>\<open>a@b.com\<close> is accepted by the validator, and submit then hands exactly one
  Submission with that answer to storage; when storage accepts it, the form is submitted.
\<close>

theorem email_scenario:
  "handleSubmit RegExp insertSubmission (formSchemaOf [emailField lbl]) fid
      (handleChange (lit ''email'') (lit ''not-an-email'') st)
    = Inr ((handleChange (lit ''email'') (lit ''not-an-email'') st)
             \<lparr>errors := [lit ''email'' \<mapsto> lit ''Invalid email address'']\<rparr>,
           [Toast_error (lit ''Please fix the errors in the form'')])
  \<and> validateField RegExp (emailField lbl) (lit ''a@b.com'') = Inr None
  \<and> insertions (case handleSubmit RegExp insertSubmission (formSchemaOf [emailField lbl]) fid
          (handleChange (lit ''email'') (lit ''a@b.com'') st) of Inl e \<Rightarrow> [] | Inr (st', effs) \<Rightarrow> effs)
      = [\<lparr>form_title = lit ''Scenario'',
          form_data = (formData st)(lit ''email'' \<mapsto> lit ''a@b.com''),
          form_id = (case fid of None \<Rightarrow> None | Some i \<Rightarrow> if truthy i then Some i else None)\<rparr>]
  \<and> handleSubmit RegExp (\<lambda>s. Insert_ok) (formSchemaOf [emailField lbl]) fid
          (handleChange (lit ''email'') (lit ''a@b.com'') st)
      = Inr ((handleChange (lit ''email'') (lit ''a@b.com'') st)
                \<lparr>formData := Map.empty, errors := Map.empty, isSubmitting := False, submitted := True\<rparr>,
             [Insert_form_submissions
                \<lparr>form_title = lit ''Scenario'',
                 form_data = (formData st)(lit ''email'' \<mapsto> lit ''a@b.com''),
                 form_id = (case fid of None \<Rightarrow> None | Some i \<Rightarrow> if truthy i then Some i else None)\<rparr>,
              Toast_success (lit ''Form submitted successfully!'')])"
proof -
  have bad: "validateField RegExp (emailField lbl) (lit ''not-an-email'')
               = Inr (Some (lit ''Invalid email address''))"
    by (simp add: validateField_def emailField_def builtin_validation_def string_evals regexp_evals)
  have good: "validateField RegExp (emailField lbl) (lit ''a@b.com'') = Inr None"
    by (simp add: validateField_def emailField_def builtin_validation_def string_evals regexp_evals)
  have fs: "fields_of (formSchemaOf [emailField lbl]) = [emailField lbl]"
    by (simp add: fields_of_def formSchemaOf_def)
  have t: "title (formSchemaOf [emailField lbl]) = Some (lit ''Scenario'')"
    by (simp add: formSchemaOf_def)
  have ans: "x \<noteq> [] \<Longrightarrow> answer (formData (handleChange (lit ''email'') x st)) (emailField lbl) = x" for x
    by (simp add: answer_def handleChange_def emailField_def or_else_def truthy_def)
  have a1: "answer (formData (handleChange (lit ''email'') (lit ''not-an-email'') st)) (emailField lbl)
              = lit ''not-an-email''"
    by (rule ans) (simp add: lit_def)
  have a2: "answer (formData (handleChange (lit ''email'') (lit ''a@b.com'') st)) (emailField lbl)
              = lit ''a@b.com''"
    by (rule ans) (simp add: lit_def)
  have id: "field_id (emailField lbl) = lit ''email''"
    by (simp add: emailField_def)
  have tr: "truthy (lit ''Invalid email address'')" "truthy (lit ''Scenario'')"
    by (simp_all add: truthy_def lit_def)
  have v1: "validate_fields RegExp (formData (handleChange (lit ''email'') (lit ''not-an-email'') st))
              [emailField lbl] Map.empty = Inr [lit ''email'' \<mapsto> lit ''Invalid email address'']"
    by (simp add: a1 bad id tr)
  have v2: "validate_fields RegExp (formData (handleChange (lit ''email'') (lit ''a@b.com'') st))
              [emailField lbl] Map.empty = Inr Map.empty"
    by (simp add: a2 good)
  have fd: "formData (handleChange (lit ''email'') (lit ''a@b.com'') st)
              = (formData st)(lit ''email'' \<mapsto> lit ''a@b.com'')"
    by (simp add: handleChange_def)
  note v2' = v2 [unfolded fd]
  have p1: "handleSubmit RegExp insertSubmission (formSchemaOf [emailField lbl]) fid
      (handleChange (lit ''email'') (lit ''not-an-email'') st)
    = Inr ((handleChange (lit ''email'') (lit ''not-an-email'') st)
             \<lparr>errors := [lit ''email'' \<mapsto> lit ''Invalid email address'']\<rparr>,
           [Toast_error (lit ''Please fix the errors in the form'')])"
    by (simp add: handleSubmit_def fs v1 del: validate_fields.simps)
  have p3: "insertions (case handleSubmit RegExp insertSubmission (formSchemaOf [emailField lbl]) fid
          (handleChange (lit ''email'') (lit ''a@b.com'') st) of Inl e \<Rightarrow> [] | Inr (st', effs) \<Rightarrow> effs)
      = [\<lparr>form_title = lit ''Scenario'',
          form_data = (formData st)(lit ''email'' \<mapsto> lit ''a@b.com''),
          form_id = (case fid of None \<Rightarrow> None | Some i \<Rightarrow> if truthy i then Some i else None)\<rparr>]"
    by (simp add: handleSubmit_def fs v2' t or_else_def tr fd Let_def
        del: validate_fields.simps split: insert_result.splits)
  have p4: "handleSubmit RegExp (\<lambda>s. Insert_ok) (formSchemaOf [emailField lbl]) fid
          (handleChange (lit ''email'') (lit ''a@b.com'') st)
      = Inr ((handleChange (lit ''email'') (lit ''a@b.com'') st)
                \<lparr>formData := Map.empty, errors := Map.empty, isSubmitting := False, submitted := True\<rparr>,
             [Insert_form_submissions
                \<lparr>form_title = lit ''Scenario'',
                 form_data = (formData st)(lit ''email'' \<mapsto> lit ''a@b.com''),
                 form_id = (case fid of None \<Rightarrow> None | Some i \<Rightarrow> if truthy i then Some i else None)\<rparr>,
              Toast_success (lit ''Form submitted successfully!'')])"
    by (simp add: handleSubmit_def fs v2' t or_else_def tr fd Let_def del: validate_fields.simps)
  from p1 good p3 p4 show ?thesis by blast
qed

section \<open>Properties of editing\<close>

text \<open>No state that a session can reach holds an empty message in its Error Map.\<close>

lemma reachable_errors_truthy: "reachable st \<Longrightarrow> errors st k \<noteq> Some []"
proof (induction arbitrary: k rule: reachable.induct)
  case start
  show ?case by (simp add: initial_DynamicForm_def)
next
  case (edit st fieldId v)
  then show ?case by (simp add: handleChange_def)
next
  case (submit st RegExp insertSubmission schema fid st' effs)
  show ?case
  proof (cases "validate_fields RegExp (formData st) (fields_of schema) Map.empty")
    case (Inl e)
    with submit.hyps(2) show ?thesis by (simp add: handleSubmit_def)
  next
    case (Inr newErrors)
    show ?thesis
    proof (cases "dom newErrors = {}")
      case True
      with Inr submit.hyps(2) submit.IH [of k] show ?thesis
        by (auto simp: handleSubmit_def Let_def split: insert_result.splits)
    next
      case False
      with Inr submit.hyps(2) have e: "errors st' = newErrors"
        by (auto simp: handleSubmit_def)
      show ?thesis
      proof
        assume "errors st' k = Some []"
        with e have "newErrors k = Some []" by simp
        from validate_fields_entry [OF Inr this] show False
          using validateField_message_truthy by auto
      qed
    qed
  qed
next
  case (another st)
  then show ?case by simp
qed

lemma two_errors_step:
  "handleSubmit literal_RegExp (\<lambda>s. Insert_ok) (formSchemaOf [nameField, emailField (lit ''Email'')]) None
     (handleChange (lit ''email'') (lit ''not-an-email'') initial_DynamicForm)
   = Inr (twoErrors, [Toast_error (lit ''Please fix the errors in the form'')])"
  by (simp add: validateField_def handleSubmit_def handleChange_def initial_DynamicForm_def
      nameField_def emailField_def formSchemaOf_def builtin_validation_def answer_def fields_of_def
      twoErrors_def string_evals regexp_evals)

text \<open>
  Claim C9. In every state a session can be in, editing a field removes the entry of
  that field from the Error Map and leaves the entry of every other field as it is; the
  Answer Map changes at that field's identifier only, where it takes the new value.
  \<^verbatim>\<open>handleChange\<close> does this at once: the validator is no part of it.
\<close>

theorem edit_clears_own_error:
  assumes "reachable st"
  shows "errors (handleChange k v st) k = None
       \<and> (\<forall>k'. k' \<noteq> k \<longrightarrow> errors (handleChange k v st) k' = errors st k')
       \<and> formData (handleChange k v st) = (formData st)(k \<mapsto> v)
       \<and> isSubmitting (handleChange k v st) = isSubmitting st
       \<and> submitted (handleChange k v st) = submitted st"
  using reachable_errors_truthy [OF assms, of k]
  by (auto simp: handleChange_def truthy_def split: option.splits)

theorem edit_clears_own_error_witness:
  "reachable twoErrors
   \<and> errors twoErrors (lit ''email'') = Some (lit ''Invalid email address'')
   \<and> errors (handleChange (lit ''email'') (lit ''a@b.com'') twoErrors) (lit ''email'') = None
   \<and> errors (handleChange (lit ''email'') (lit ''a@b.com'') twoErrors) (lit ''name'')
       = Some (lit ''Name is required'')
   \<and> formData (handleChange (lit ''email'') (lit ''a@b.com'') twoErrors)
       = [lit ''email'' \<mapsto> lit ''a@b.com'']"
proof -
  have r: "reachable twoErrors"
    by (rule reachable.submit [OF reachable.edit [OF reachable.start] two_errors_step])
  have ne: "lit ''name'' \<noteq> lit ''email''"
    by (simp add: lit_def)
  from edit_clears_own_error [OF r, of "lit ''email''" "lit ''a@b.com''"] r ne show ?thesis
    by (simp add: twoErrors_def)
qed

section \<open>Properties of the form builder\<close>

lemma generateForm_requests:
  "requests (snd (generateForm invoke insertForm d st)) = (if truthy (trim d) then [d] else [])"
  by (simp add: generateForm_def Let_def split: invoke_result.splits save_result.splits)

lemma generateForm_description:
  "description (fst (generateForm invoke insertForm d st)) = description st"
  by (simp add: generateForm_def Let_def split: invoke_result.splits save_result.splits)

text \<open>
  Claim C10. When the description that \<^verbatim>\<open>generateForm\<close> reads is empty or white space
  only, the function shows the toast "Please describe the form you want to create" and
  returns: the state, with its form schema and form id, is as before, and no request
  goes to the generation service. The button "Generate Form" is disabled for such a
  description, so a click does nothing at all.
\<close>

theorem blank_description_sends_no_request:
  assumes "list_all isWhiteSpace d"
  shows "generateForm invoke insertForm d st
           = (st, [Toast_error (lit ''Please describe the form you want to create'')])
       \<and> requests (snd (generateForm invoke insertForm d st)) = []
       \<and> formSchema (fst (generateForm invoke insertForm d st)) = formSchema st
       \<and> formId (fst (generateForm invoke insertForm d st)) = formId st
       \<and> click_generate invoke insertForm (st\<lparr>description := d\<rparr>) = (st\<lparr>description := d\<rparr>, [])"
  using assms
  by (simp add: generateForm_def click_generate_def generate_disabled_def truthy_def trim_empty_iff)

theorem blank_description_sends_no_request_witness:
  "list_all isWhiteSpace [0x20, 0xA]
   \<and> generateForm (\<lambda>d. Invoke_data (formSchemaOf [nameField])) (\<lambda>row. Saved (lit ''f2''))
        [0x20, 0xA]
        (initial_FormBuilder\<lparr>formSchema := Some (formSchemaOf [codeField]), formId := Some (lit ''f1'')\<rparr>)
      = (initial_FormBuilder\<lparr>formSchema := Some (formSchemaOf [codeField]), formId := Some (lit ''f1'')\<rparr>,
         [Toast_error (lit ''Please describe the form you want to create'')])"
  using blank_description_sends_no_request [of "[0x20, 0xA]"
      "\<lambda>d. Invoke_data (formSchemaOf [nameField])" "\<lambda>row. Saved (lit ''f2'')"
      "initial_FormBuilder\<lparr>formSchema := Some (formSchemaOf [codeField]), formId := Some (lit ''f1'')\<rparr>"]
  by (simp add: isWhiteSpace_def)

text \<open>
  Claim C6. The amended description that \<^verbatim>\<open>handleClarificationSubmit\<close> stores is the
  description it started from, then an empty line, the line "Clarifications:", and the
  answers in their order, one per line. For the two answers \<open>a1\<close> and \<open>a2\<close> of two
  questions: the original text is a prefix, the label follows, and \<open>a1\<close> stands before
  \<open>a2\<close>.
\<close>

theorem amended_description_shape:
  "description (fst (handleClarificationSubmit d answers st))
     = d @ [0xA, 0xA] @ lit ''Clarifications:'' @ [0xA] @ join [0xA] answers
   \<and> description (fst (handleClarificationSubmit d [a1, a2] st))
     = d @ [0xA, 0xA] @ lit ''Clarifications:'' @ [0xA] @ a1 @ [0xA] @ a2
   \<and> take (length d) (description (fst (handleClarificationSubmit d [a1, a2] st))) = d"
  by (simp add: handleClarificationSubmit_def)

text \<open>
  The request that follows a clarification: when the dialog is submitted with complete
  answers, the timer calls the \<^verbatim>\<open>generateForm\<close> of the render that set it. Exactly one
  request is sent, and it carries the description of that render, while the state holds
  the amended description.
\<close>

lemma regeneration_request_is_stale:
  assumes "answers_complete answers" and "truthy (trim (description st))"
  shows "requests (snd (continue_with_clarifications invoke insertForm answers st)) = [description st]
       \<and> description (fst (continue_with_clarifications invoke insertForm answers st))
           = description st @ [0xA, 0xA] @ lit ''Clarifications:'' @ [0xA] @ join [0xA] answers
       \<and> description (fst (continue_with_clarifications invoke insertForm answers st)) \<noteq> description st"
  using assms
  by (simp add: continue_with_clarifications_def handleClarificationSubmit_def
      generateForm_requests generateForm_description split: prod.splits)

lemma awaiting_answers_state:
  "awaiting_answers =
     \<lparr>description = scenario_description, isGenerating = False,
      formSchema = Some scenario_clarification, showClarification = True, formId = None\<rparr>"
  by (simp add: awaiting_answers_def click_generate_def generate_disabled_def generateForm_def
      initial_FormBuilder_def scenario_gateway_def scenario_clarification_def
      scenario_description_def string_evals)

text \<open>
  Claim C2, on the scenario of the specification. The dialog shows the question; the user
  answers "Anonymous" and continues. One request is sent, and it carries the original
  description, not the amended one that the state now holds; the service therefore
  answers with the same clarification request again.
\<close>

theorem regeneration_carries_original_description:
  "clarification_dialog awaiting_answers
     = Some (True, lit ''An anonymous form cannot require a phone number'',
             [lit ''Should the form be anonymous or collect phone numbers?''])
   \<and> answers_complete [lit ''Anonymous'']
   \<and> requests (snd (continue_with_clarifications scenario_gateway scenario_storage
                      [lit ''Anonymous''] awaiting_answers))
       = [lit ''anonymous feedback form with required phone number'']
   \<and> description (fst (continue_with_clarifications scenario_gateway scenario_storage
                      [lit ''Anonymous''] awaiting_answers))
       = lit ''anonymous feedback form with required phone number'' @ [0xA, 0xA]
         @ lit ''Clarifications:'' @ [0xA] @ lit ''Anonymous''
   \<and> formSchema (fst (continue_with_clarifications scenario_gateway scenario_storage
                      [lit ''Anonymous''] awaiting_answers))
       = Some scenario_clarification"
proof -
  have t: "truthy (trim scenario_description)"
    by (simp add: scenario_description_def string_evals)
  have c: "answers_complete [lit ''Anonymous'']"
    by (simp add: answers_complete_def string_evals)
  have d: "description awaiting_answers = scenario_description"
    by (simp add: awaiting_answers_state)
  have g: "generateForm scenario_gateway scenario_storage scenario_description st
       = (st\<lparr>isGenerating := False, formSchema := Some scenario_clarification,
              showClarification := True\<rparr>,
          [Invoke_generate_form scenario_description,
           Toast_info (lit ''We need some clarification about your form'')])" for st
    using t by (simp add: generateForm_def scenario_gateway_def scenario_clarification_def)
  have k: "continue_with_clarifications scenario_gateway scenario_storage [lit ''Anonymous'']
             awaiting_answers
     = (awaiting_answers\<lparr>description := scenario_description @ [0xA, 0xA]
                              @ lit ''Clarifications:'' @ [0xA] @ lit ''Anonymous'',
           showClarification := True, formSchema := Some scenario_clarification,
           isGenerating := False\<rparr>,
        [Invoke_generate_form scenario_description,
         Toast_info (lit ''We need some clarification about your form'')])"
    by (simp add: continue_with_clarifications_def c handleClarificationSubmit_def d g)
  have dlg: "clarification_dialog awaiting_answers
     = Some (True, lit ''An anonymous form cannot require a phone number'',
             [lit ''Should the form be anonymous or collect phone numbers?''])"
    by (simp add: awaiting_answers_state clarification_dialog_def scenario_clarification_def
        or_else_def truthy_def lit_def)
  show ?thesis
    by (simp add: k c dlg) (simp add: scenario_description_def)
qed

section \<open>The shape of a generation result\<close>

text \<open>
  Claim C3, as stated, fails: the generation result is one record in which the properties
  of both variants are optional, and they can be present together. \<open>mixed_result\<close> is
  tagged \<^verbatim>\<open>form\<close> and carries a title and fields as well as a contradiction and
  questions; \<^verbatim>\<open>generateForm\<close> stores it as it is, and the preview shows it as a form.
\<close>

theorem both_variants_coexist:
  "schema_type mixed_result = Form
   \<and> title mixed_result = Some (lit ''Feedback'')
   \<and> schema_fields mixed_result = Some [feedbackField]
   \<and> contradiction mixed_result = Some (lit ''An anonymous form cannot require a phone number'')
   \<and> questions mixed_result = Some [lit ''Should the form be anonymous or collect phone numbers?'']
   \<and> preview_panel (fst (generateForm (\<lambda>d. Invoke_data mixed_result) scenario_storage
                            scenario_description initial_FormBuilder))
       = Preview_form mixed_result"
  by (simp add: mixed_result_def preview_panel_def generateForm_def scenario_description_def
      initial_FormBuilder_def scenario_storage_def string_evals)

text \<open>
  Claim C3, amended. A generation result is one record: a tag, which is either
  \<^verbatim>\<open>form\<close> or \<^verbatim>\<open>clarification\<close>, and five optional properties that do not depend on
  the tag (every combination of tag and properties is a value). The tag alone decides
  what is done with a result that the service returns: it is stored as it is; under the
  tag \<^verbatim>\<open>clarification\<close> the dialog opens, with the contradiction (or the empty string)
  and the questions (or none), and the preview stays a placeholder; under the tag
  \<^verbatim>\<open>form\<close> the preview shows it as a form and no dialog is mounted.
\<close>

theorem generation_result_dispatch_by_tag:
  "(\<exists>r :: FormSchema. schema_type r = t \<and> title r = a \<and> schema_description r = b
         \<and> schema_fields r = c \<and> contradiction r = d \<and> questions r = e)
   \<and> (truthy (trim dsc) \<and> invoke dsc = Invoke_data r \<longrightarrow>
        formSchema (fst (generateForm invoke insertForm dsc st)) = Some r
        \<and> (schema_type r = Clarification \<longrightarrow>
              preview_panel (fst (generateForm invoke insertForm dsc st)) = Preview_placeholder
              \<and> clarification_dialog (fst (generateForm invoke insertForm dsc st))
                  = Some (True, or_else (contradiction r) [],
                          (case questions r of None \<Rightarrow> [] | Some qs \<Rightarrow> qs)))
        \<and> (schema_type r = Form \<longrightarrow>
              preview_panel (fst (generateForm invoke insertForm dsc st)) = Preview_form r
              \<and> clarification_dialog (fst (generateForm invoke insertForm dsc st)) = None))"
proof -
  have ex: "\<exists>r :: FormSchema. schema_type r = t \<and> title r = a \<and> schema_description r = b
         \<and> schema_fields r = c \<and> contradiction r = d \<and> questions r = e"
    by (rule exI [of _ "\<lparr>schema_type = t, title = a, schema_description = b, schema_fields = c,
           contradiction = d, questions = e\<rparr>"]) simp
  show ?thesis
    using ex
    by (auto simp: generateForm_def preview_panel_def clarification_dialog_def Let_def
        split: save_result.splits)
qed

theorem generation_result_dispatch_by_tag_witness:
  "truthy (trim scenario_description)
   \<and> scenario_gateway scenario_description = Invoke_data scenario_clarification
   \<and> schema_type scenario_clarification = Clarification
   \<and> formSchema (fst (generateForm scenario_gateway scenario_storage scenario_description
                        initial_FormBuilder)) = Some scenario_clarification
   \<and> preview_panel (fst (generateForm scenario_gateway scenario_storage scenario_description
                        initial_FormBuilder)) = Preview_placeholder
   \<and> clarification_dialog (fst (generateForm scenario_gateway scenario_storage scenario_description
                        initial_FormBuilder))
       = Some (True, lit ''An anonymous form cannot require a phone number'',
               [lit ''Should the form be anonymous or collect phone numbers?''])"
proof -
  have t: "truthy (trim scenario_description)"
    by (simp add: scenario_description_def string_evals)
  have g: "scenario_gateway scenario_description = Invoke_data scenario_clarification"
    by (simp add: scenario_gateway_def)
  have c: "schema_type scenario_clarification = Clarification"
    by (simp add: scenario_clarification_def)
  have o: "or_else (contradiction scenario_clarification) []
             = lit ''An anonymous form cannot require a phone number''"
          "(case questions scenario_clarification of None \<Rightarrow> [] | Some qs \<Rightarrow> qs)
             = [lit ''Should the form be anonymous or collect phone numbers?'']"
    by (simp_all add: scenario_clarification_def or_else_def truthy_def lit_def)
  from generation_result_dispatch_by_tag [of Form None None None None None
      scenario_description scenario_gateway scenario_clarification scenario_storage
      initial_FormBuilder] t g c o
  show ?thesis by simp
qed

end
